theory Spec2Isabelle
  imports Complex_Main
begin

section \<open>Hand-eye calibration node: data model\<close>

text \<open>
  A shallow embedding of \<^verbatim>\<open>src/handeye_calibration.cpp\<close>.

  \<^item> A \<^verbatim>\<open>double\<close> is a \<^typ>\<open>real\<close>: rounding, infinities and NaN are not part of the model.
  \<^item> \<^verbatim>\<open>Eigen::Affine3d\<close> is its 4x4 coefficient matrix, given by its four rows.
  \<^item> The numerical operations of Eigen (inverse, product, rotation part, translation part,
    conversion of a rotation to angle-axis and to a quaternion) and the camodocal solver are
    libraries outside the source file; the functions below take them as parameters.
  \<^item> A \<^verbatim>\<open>cv::FileStorage\<close> is the list of its entries; the precision with which a double
    written to it is read back is a parameter of the reading functions.
  \<^item> The transform listener, the keyboard and the file system are inputs: a function that
    asks them takes their answer as an argument.
  \<^item> The ROS console is part of the state; the diagnostic prints on \<^verbatim>\<open>std::cerr\<close> and
    \<^verbatim>\<open>std::cout\<close> are left out.
  \<^item> Loop counters and vector sizes are natural numbers: the \<^verbatim>\<open>int\<close> counters of the source
    wrap only beyond \<open>2^31 - 1\<close> poses, which no run of the node reaches.
  \<^item> An operation that C++ leaves undefined (\<^verbatim>\<open>pop_back\<close> on an empty vector, reading an
    iterator past the end) is the error \<open>UndefinedBehaviour\<close>.
\<close>

type_synonym row4 = "real \<times> real \<times> real \<times> real"

datatype Affine3d = Affine3d (row0: row4) (row1: row4) (row2: row4) (row3: row4)

datatype Vector3d = Vector3d (vec_x: real) (vec_y: real) (vec_z: real)

datatype Matrix3d = Matrix3d "real \<times> real \<times> real" "real \<times> real \<times> real" "real \<times> real \<times> real"

datatype Quaterniond = Quaterniond (quat_x: real) (quat_y: real) (quat_z: real) (quat_w: real)

record AngleAxisd =
  angle :: real
  axis :: Vector3d

text \<open>The Eigen operations the source calls, as a record of functions.\<close>

record eigen =
  inverse_aff :: "Affine3d \<Rightarrow> Affine3d"
  times_aff :: "Affine3d \<Rightarrow> Affine3d \<Rightarrow> Affine3d"
  rotation :: "Affine3d \<Rightarrow> Matrix3d"
  translation :: "Affine3d \<Rightarrow> Vector3d"
  to_AngleAxisd :: "Matrix3d \<Rightarrow> AngleAxisd"
  to_Quaterniond :: "Matrix3d \<Rightarrow> Quaterniond"

text \<open>\<^verbatim>\<open>ceres::Solver::Summary\<close>, the fields the source reads. The termination type is the
  integer value of the ceres enumeration, which is how the source writes it.\<close>

record Summary =
  initial_cost :: real
  final_cost :: real
  termination_type :: int
  num_successful_steps :: int
  num_unsuccessful_steps :: int

text \<open>\<^verbatim>\<open>camodocal::HandEyeCalibration::estimateHandEyeScrew\<close>: from the four vectors of relative
  motions to the 4x4 result and the solver summary.\<close>

type_synonym estimator =
  "Vector3d list \<Rightarrow> Vector3d list \<Rightarrow> Vector3d list \<Rightarrow> Vector3d list \<Rightarrow> Affine3d \<times> Summary"

datatype error = UndefinedBehaviour string | MalformedStorage string

datatype ros_level = Info | Warn

type_synonym ros_msg = "ros_level \<times> string"

subsection \<open>The persisted files\<close>

text \<open>A \<^verbatim>\<open>cv::Mat\<close> of doubles is the list of its rows. An opened \<^verbatim>\<open>cv::FileStorage\<close> is the
  list of its top-level entries in the order they were written.\<close>

type_synonym cvMat = "real list list"

datatype fs_value = IntVal int | RealVal real | MatVal cvMat

type_synonym FileStorage = "(string \<times> fs_value) list"

subsection \<open>The global variables\<close>

text \<open>The relative-motion variables exist twice in the source: as globals, filled by
  \<^verbatim>\<open>addFrame\<close>, and as locals of \<^verbatim>\<open>estimateHandEye\<close> that shadow them. The record
  \<open>motion_buffers\<close> is the local set; \<open>globals\<close> extends it with the other globals, the ROS
  console and the two files the interactive loop writes.\<close>

record motion_buffers =
  firstEEInverse :: Affine3d
  firstCamInverse :: Affine3d
  firstTransform :: bool
  tvecsArm :: "Vector3d list"
  rvecsArm :: "Vector3d list"
  tvecsFiducial :: "Vector3d list"
  rvecsFiducial :: "Vector3d list"

record globals = motion_buffers +
  cameraTFname :: string
  ARTagTFname :: string
  EETFname :: string
  baseTFname :: string
  baseToTip :: "Affine3d list"
  cameraToTag :: "Affine3d list"
  rosout :: "ros_msg list"
  transformPairsRecordFile :: "FileStorage option"
  calibratedTransformFile :: "FileStorage option"

definition ROS_INFO :: "string \<Rightarrow> globals \<Rightarrow> globals" where
  "ROS_INFO msg g = g\<lparr>rosout := rosout g @ [(Info, msg)]\<rparr>"

definition ROS_WARN :: "string \<Rightarrow> globals \<Rightarrow> globals" where
  "ROS_WARN msg g = g\<lparr>rosout := rosout g @ [(Warn, msg)]\<rparr>"

section \<open>Conversion of a rotation to an axis-angle vector\<close>

definition scale :: "real \<Rightarrow> Vector3d \<Rightarrow> Vector3d" where
  "scale a v = Vector3d (a * vec_x v) (a * vec_y v) (a * vec_z v)"

definition eigenRotToEigenVector3dAngleAxis :: "eigen \<Rightarrow> Matrix3d \<Rightarrow> Vector3d" where
  "eigenRotToEigenVector3dAngleAxis E eigenQuat =
     (let ax3d = to_AngleAxisd E eigenQuat
      in scale (angle ax3d) (axis ax3d))"

section \<open>Capturing a frame\<close>

text \<open>The two arguments \<open>camLookup\<close> and \<open>eeLookup\<close> are what the transform listener
  delivers: \<open>None\<close> when \<^verbatim>\<open>waitForTransform\<close> times out, the transform (converted to Eigen)
  otherwise. Both lookups are made whatever the first one gives.\<close>

definition addFrame :: "eigen \<Rightarrow> Affine3d option \<Rightarrow> Affine3d option \<Rightarrow> globals \<Rightarrow> globals" where
  "addFrame E camLookup eeLookup g =
     (let g1 = (case camLookup of
                  Some CamTransform \<Rightarrow> g
                | None \<Rightarrow> ROS_WARN (''Fail to Cam TF transform between '' @ ARTagTFname g
                                      @ '' to '' @ cameraTFname g) g);
          g2 = (case eeLookup of
                  Some EETransform \<Rightarrow> g1
                | None \<Rightarrow> ROS_WARN (''Fail to EE TF transform between '' @ baseTFname g1
                                      @ '' to '' @ EETFname g1) g1)
      in case (eeLookup, camLookup) of
           (Some eigenEE, Some eigenCam) \<Rightarrow>
             (let g3 = g2\<lparr>baseToTip := baseToTip g2 @ [eigenEE],
                          cameraToTag := cameraToTag g2 @ [eigenCam]\<rparr>
              in if firstTransform g3
                 then ROS_INFO ''Adding first transformation.''
                        (g3\<lparr>firstEEInverse := inverse_aff E eigenEE,
                            firstCamInverse := inverse_aff E eigenCam,
                            firstTransform := False\<rparr>)
                 else
                   (let robotTipinFirstTipBase = times_aff E (firstEEInverse g3) eigenEE;
                        fiducialInFirstFiducialBase = times_aff E (firstCamInverse g3) eigenCam
                    in ROS_INFO ''Hand Eye Calibration Transform Pair Added''
                         (g3\<lparr>rvecsArm := rvecsArm g3 @
                                [eigenRotToEigenVector3dAngleAxis E (rotation E robotTipinFirstTipBase)],
                             tvecsArm := tvecsArm g3 @ [translation E robotTipinFirstTipBase],
                             rvecsFiducial := rvecsFiducial g3 @
                                [eigenRotToEigenVector3dAngleAxis E (rotation E fiducialInFirstFiducialBase)],
                             tvecsFiducial := tvecsFiducial g3 @
                                [translation E fiducialInFirstFiducialBase]\<rparr>)))
         | _ \<Rightarrow> ROS_WARN ''Fail to get one/both of needed TF transform'' g2)"

section \<open>The pose-pair file\<close>

text \<open>\<^verbatim>\<open>ss << i\<close>: the decimal digits of a loop index.\<close>

definition digit_char :: "nat \<Rightarrow> char" where
  "digit_char d = ''0123456789'' ! d"

fun string_of_nat :: "nat \<Rightarrow> string" where
  "string_of_nat n =
     (if n < 10 then [digit_char n] else string_of_nat (n div 10) @ [digit_char (n mod 10)])"

declare string_of_nat.simps [simp del]

text \<open>\<^verbatim>\<open>cv::eigen2cv\<close> and \<^verbatim>\<open>cv::cv2eigen\<close> copy the coefficients between the Eigen matrix and
  the OpenCV matrix. \<^verbatim>\<open>cv2eigen\<close> into the fixed-size 4x4 matrix is only defined for a 4x4
  source.\<close>

fun row_list :: "row4 \<Rightarrow> real list" where
  "row_list (a, b, c, d) = [a, b, c, d]"

fun list_row :: "real list \<Rightarrow> row4 option" where
  "list_row [a, b, c, d] = Some (a, b, c, d)"
| "list_row _ = None"

definition eigen2cv :: "Affine3d \<Rightarrow> cvMat" where
  "eigen2cv m = [row_list (row0 m), row_list (row1 m), row_list (row2 m), row_list (row3 m)]"

fun cv2eigen :: "cvMat \<Rightarrow> error + Affine3d" where
  "cv2eigen [r0, r1, r2, r3] =
     (case (list_row r0, list_row r1, list_row r2, list_row r3) of
        (Some a, Some b, Some c, Some d) \<Rightarrow> Inr (Affine3d a b c d)
      | _ \<Rightarrow> Inl (MalformedStorage ''cv2eigen: not a 4x4 matrix''))"
| "cv2eigen _ = Inl (MalformedStorage ''cv2eigen: not a 4x4 matrix'')"

definition T1_key :: "nat \<Rightarrow> string" where
  "T1_key i = ''T1_'' @ string_of_nat i"

definition T2_key :: "nat \<Rightarrow> string" where
  "T2_key i = ''T2_'' @ string_of_nat i"

text \<open>The loop of \<^verbatim>\<open>writeTransformPairsToFile\<close>: \<open>i\<close> counts up to \<^verbatim>\<open>t1.size()\<close> while the
  iterator over \<open>t2\<close> is advanced in step and never compared with its end.\<close>

fun write_pairs_loop ::
  "nat \<Rightarrow> Affine3d list \<Rightarrow> Affine3d list \<Rightarrow> FileStorage \<Rightarrow> error + FileStorage" where
  "write_pairs_loop i [] t2 fs = Inr fs"
| "write_pairs_loop i (a # t1) [] fs =
     Inl (UndefinedBehaviour ''t2 iterator dereferenced past the end'')"
| "write_pairs_loop i (a # t1) (b # t2) fs =
     write_pairs_loop (Suc i) t1 t2
       (fs @ [(T1_key i, MatVal (eigen2cv a)), (T2_key i, MatVal (eigen2cv b))])"

text \<open>The argument \<open>fsOpened\<close> stands for the file name: it is what \<^verbatim>\<open>fs.isOpened()\<close> answers
  for it. The result is the return code and the content written (\<open>None\<close>: nothing written).\<close>

definition writeTransformPairsToFile ::
  "Affine3d list \<Rightarrow> Affine3d list \<Rightarrow> bool \<Rightarrow> error + (int \<times> FileStorage option)" where
  "writeTransformPairsToFile t1 t2 fsOpened =
     (let frameCount = int (length t1)
      in if fsOpened
         then (case write_pairs_loop 0 t1 t2 [(''frameCount'', IntVal frameCount)] of
                 Inl e \<Rightarrow> Inl e
               | Inr fs \<Rightarrow> Inr (0, Some fs))
         else Inr (1, None))"

text \<open>Reading. The parameter \<open>P\<close> is the storage library's precision: \<open>P x\<close> is the double that
  is read back from the text written for \<open>x\<close>. A missing \<^verbatim>\<open>frameCount\<close> reads as 0, the
  library's default; a missing or ill-shaped matrix is an error of the model.\<close>

definition read_int :: "FileStorage \<Rightarrow> string \<Rightarrow> error + int" where
  "read_int fs k =
     (case map_of fs k of
        None \<Rightarrow> Inr 0
      | Some (IntVal n) \<Rightarrow> Inr n
      | Some _ \<Rightarrow> Inl (MalformedStorage k))"

definition read_mat :: "(real \<Rightarrow> real) \<Rightarrow> FileStorage \<Rightarrow> string \<Rightarrow> error + Affine3d" where
  "read_mat P fs k =
     (case map_of fs k of
        Some (MatVal m) \<Rightarrow> cv2eigen (map (map P) m)
      | _ \<Rightarrow> Inl (MalformedStorage k))"

text \<open>The loop of \<^verbatim>\<open>readTransformPairsFromFile\<close>; \<open>n\<close> is the number of iterations left. Each
  matrix goes through a \<^verbatim>\<open>std::back_inserter\<close> of the output vector.\<close>

fun read_pairs_loop ::
  "(real \<Rightarrow> real) \<Rightarrow> FileStorage \<Rightarrow> nat \<Rightarrow> nat \<Rightarrow> Affine3d list \<Rightarrow> Affine3d list
     \<Rightarrow> error + (Affine3d list \<times> Affine3d list)" where
  "read_pairs_loop P fs i 0 t1 t2 = Inr (t1, t2)"
| "read_pairs_loop P fs i (Suc n) t1 t2 =
     (case read_mat P fs (T1_key i) of
        Inl e \<Rightarrow> Inl e
      | Inr t1e \<Rightarrow>
          (case read_mat P fs (T2_key i) of
             Inl e \<Rightarrow> Inl e
           | Inr t2e \<Rightarrow> read_pairs_loop P fs (Suc i) n (t1 @ [t1e]) (t2 @ [t2e])))"

text \<open>The argument \<open>file\<close> stands for the file name: \<open>None\<close> when the file cannot be opened,
  its entries otherwise. The result is the return code and the two output vectors.\<close>

definition readTransformPairsFromFile ::
  "(real \<Rightarrow> real) \<Rightarrow> FileStorage option \<Rightarrow> Affine3d list \<Rightarrow> Affine3d list
     \<Rightarrow> error + (int \<times> Affine3d list \<times> Affine3d list)" where
  "readTransformPairsFromFile P file t1 t2 =
     (case file of
        None \<Rightarrow> Inr (1, t1, t2)
      | Some fs \<Rightarrow>
          (case read_int fs ''frameCount'' of
             Inl e \<Rightarrow> Inl e
           | Inr frameCount \<Rightarrow>
               (case read_pairs_loop P fs 0 (nat frameCount) t1 t2 of
                  Inl e \<Rightarrow> Inl e
                | Inr (t1', t2') \<Rightarrow> Inr (0, t1', t2'))))"

section \<open>Estimation from a list of pose pairs\<close>

text \<open>One iteration of the loop of \<^verbatim>\<open>estimateHandEye\<close>, on the console and the local
  variables.\<close>

definition estimateHandEye_body ::
  "eigen \<Rightarrow> Affine3d \<Rightarrow> Affine3d \<Rightarrow> globals \<times> motion_buffers \<Rightarrow> globals \<times> motion_buffers" where
  "estimateHandEye_body E eigenEE eigenCam st =
     (case st of (g, l) \<Rightarrow>
        if firstTransform l
        then (ROS_INFO ''Adding first transformation.'' g,
              l\<lparr>firstEEInverse := inverse_aff E eigenEE,
                firstCamInverse := inverse_aff E eigenCam,
                firstTransform := False\<rparr>)
        else
          (let robotTipinFirstTipBase = times_aff E (firstEEInverse l) eigenEE;
               fiducialInFirstFiducialBase = times_aff E (firstCamInverse l) eigenCam
           in (ROS_INFO ''Hand Eye Calibration Transform Pair Added'' g,
               l\<lparr>rvecsArm := rvecsArm l @
                    [eigenRotToEigenVector3dAngleAxis E (rotation E robotTipinFirstTipBase)],
                 tvecsArm := tvecsArm l @ [translation E robotTipinFirstTipBase],
                 rvecsFiducial := rvecsFiducial l @
                    [eigenRotToEigenVector3dAngleAxis E (rotation E fiducialInFirstFiducialBase)],
                 tvecsFiducial := tvecsFiducial l @
                    [translation E fiducialInFirstFiducialBase]\<rparr>)))"

text \<open>The loop runs over \<^verbatim>\<open>baseToTip\<close>; the iterator over \<^verbatim>\<open>camToTag\<close> is advanced in step and
  never compared with its end.\<close>

fun estimateHandEye_loop ::
  "eigen \<Rightarrow> Affine3d list \<Rightarrow> Affine3d list \<Rightarrow> globals \<times> motion_buffers
     \<Rightarrow> error + (globals \<times> motion_buffers)" where
  "estimateHandEye_loop E [] t2 st = Inr st"
| "estimateHandEye_loop E (eigenEE # t1) [] st =
     Inl (UndefinedBehaviour ''camToTag iterator dereferenced past the end'')"
| "estimateHandEye_loop E (eigenEE # t1) (eigenCam # t2) st =
     estimateHandEye_loop E t1 t2 (estimateHandEye_body E eigenEE eigenCam st)"

text \<open>The local variables at the start of the loop. The two local transforms are declared
  without a value; \<open>uEE\<close> and \<open>uCam\<close> are whatever they hold.\<close>

definition estimateHandEye_locals :: "Affine3d \<Rightarrow> Affine3d \<Rightarrow> motion_buffers" where
  "estimateHandEye_locals uEE uCam =
     \<lparr>firstEEInverse = uEE, firstCamInverse = uCam, firstTransform = True,
      tvecsArm = [], rvecsArm = [], tvecsFiducial = [], rvecsFiducial = []\<rparr>"

definition estimateHandEye ::
  "eigen \<Rightarrow> estimator \<Rightarrow> Affine3d \<Rightarrow> Affine3d \<Rightarrow> Affine3d list \<Rightarrow> Affine3d list \<Rightarrow> globals
     \<Rightarrow> error + (globals \<times> Affine3d \<times> Summary)" where
  "estimateHandEye E calib uEE uCam baseToTip' camToTag' g =
     (case estimateHandEye_loop E baseToTip' camToTag' (g, estimateHandEye_locals uEE uCam) of
        Inl e \<Rightarrow> Inl e
      | Inr (g', l) \<Rightarrow>
          (case calib (rvecsArm l) (tvecsArm l) (rvecsFiducial l) (tvecsFiducial l) of
             (result, summary) \<Rightarrow> Inr (g', result, summary)))"

section \<open>The calibration-result file\<close>

definition writeCalibration :: "eigen \<Rightarrow> Affine3d \<Rightarrow> bool \<Rightarrow> Summary \<Rightarrow> FileStorage option" where
  "writeCalibration E resultAffine fsOpened summary =
     (if fsOpened
      then
        (let resultQuat = to_Quaterniond E (rotation E resultAffine);
             Mat_tfpose_1_7 =
               [[vec_x (translation E resultAffine),
                 vec_y (translation E resultAffine),
                 vec_z (translation E resultAffine),
                 quat_x resultQuat, quat_y resultQuat, quat_z resultQuat, quat_w resultQuat]];
             t1cv = eigen2cv resultAffine
         in Some
              [(''handToEyeTF'', MatVal Mat_tfpose_1_7),
               (''handToEyeTransform'', MatVal t1cv),
               (''initial_cost'', RealVal (initial_cost summary)),
               (''final_cost'', RealVal (final_cost summary)),
               (''change_cost'', RealVal (initial_cost summary - final_cost summary)),
               (''termination_type'', IntVal (termination_type summary)),
               (''num_successful_iteration'', IntVal (num_successful_steps summary)),
               (''num_unsuccessful_iteration'', IntVal (num_unsuccessful_steps summary)),
               (''num_iteration'',
                  IntVal (num_unsuccessful_steps summary + num_successful_steps summary))])
      else None)"

section \<open>The interactive loop\<close>

definition pop_back :: "string \<Rightarrow> 'a list \<Rightarrow> error + 'a list" where
  "pop_back name v =
     (if v = [] then Inl (UndefinedBehaviour (name @ ''.pop_back() on an empty vector''))
      else Inr (butlast v))"

text \<open>Key \<^verbatim>\<open>s\<close>: capture, then write the pair file.\<close>

definition main_key_s ::
  "eigen \<Rightarrow> Affine3d option \<Rightarrow> Affine3d option \<Rightarrow> bool \<Rightarrow> globals \<Rightarrow> error + globals" where
  "main_key_s E camLookup eeLookup fsOpened g =
     (let g1 = addFrame E camLookup eeLookup g
      in case writeTransformPairsToFile (baseToTip g1) (cameraToTag g1) fsOpened of
           Inl e \<Rightarrow> Inl e
         | Inr (rc, written) \<Rightarrow>
             Inr (case written of
                    Some fs \<Rightarrow> g1\<lparr>transformPairsRecordFile := Some fs\<rparr>
                  | None \<Rightarrow> g1))"

text \<open>Key \<^verbatim>\<open>d\<close>: the message, then six \<^verbatim>\<open>pop_back\<close> calls in the order of the source.\<close>

definition main_key_d :: "globals \<Rightarrow> error + globals" where
  "main_key_d g =
     (let g0 = ROS_INFO (''Deleted last frame transformation. Number of Current Transformations: ''
                           @ string_of_nat (length (rvecsArm g))) g
      in case pop_back ''rvecsArm'' (rvecsArm g0) of Inl e \<Rightarrow> Inl e | Inr rA \<Rightarrow>
        (case pop_back ''tvecsArm'' (tvecsArm g0) of Inl e \<Rightarrow> Inl e | Inr tA \<Rightarrow>
        (case pop_back ''rvecsFiducial'' (rvecsFiducial g0) of Inl e \<Rightarrow> Inl e | Inr rF \<Rightarrow>
        (case pop_back ''tvecsFiducial'' (tvecsFiducial g0) of Inl e \<Rightarrow> Inl e | Inr tF \<Rightarrow>
        (case pop_back ''baseToTip'' (baseToTip g0) of Inl e \<Rightarrow> Inl e | Inr bT \<Rightarrow>
        (case pop_back ''cameraToTag'' (cameraToTag g0) of Inl e \<Rightarrow> Inl e | Inr cT \<Rightarrow>
           Inr (g0\<lparr>rvecsArm := rA, tvecsArm := tA, rvecsFiducial := rF, tvecsFiducial := tF,
                   baseToTip := bT, cameraToTag := cT\<rparr>)))))))"

text \<open>Key \<^verbatim>\<open>q\<close>: the check of the count, the solver, the result file. The estimate is returned
  beside the globals: the source prints it on the console.\<close>

definition main_key_q ::
  "eigen \<Rightarrow> estimator \<Rightarrow> bool \<Rightarrow> globals \<Rightarrow> globals \<times> Affine3d \<times> Summary" where
  "main_key_q E calib fsOpened g =
     (let g1 = (if length (rvecsArm g) < 5
                then ROS_INFO ''Node Quit''
                       (ROS_WARN ''Number of calibration transform pairs < 5.'' g)
                else g);
          g2 = ROS_INFO ''Calculating Calibration...'' g1
      in case calib (rvecsArm g2) (tvecsArm g2) (rvecsFiducial g2) (tvecsFiducial g2) of
           (result, summary) \<Rightarrow>
             (case writeCalibration E result fsOpened summary of
                Some fs \<Rightarrow> (g2\<lparr>calibratedTransformFile := Some fs\<rparr>, result, summary)
              | None \<Rightarrow> (g2, result, summary)))"

text \<open>One key press with what the environment answers while it is handled: the key code, the
  two transform lookups and whether the output file opens.\<close>

type_synonym key_press = "int \<times> Affine3d option \<times> Affine3d option \<times> bool"

text \<open>The \<^verbatim>\<open>while (ros::ok())\<close> loop of \<^verbatim>\<open>main\<close> over the key presses that arrive before the
  node is shut down; \<^verbatim>\<open>q\<close> leaves the loop.\<close>

fun main_loop :: "eigen \<Rightarrow> estimator \<Rightarrow> key_press list \<Rightarrow> globals \<Rightarrow> error + globals" where
  "main_loop E calib [] g = Inr g"
| "main_loop E calib ((key, camLookup, eeLookup, fsOpened) # rest) g =
     (if key = of_char CHR ''s'' \<or> key = of_char CHR ''S''
      then (case main_key_s E camLookup eeLookup fsOpened g of
              Inl e \<Rightarrow> Inl e
            | Inr g' \<Rightarrow> main_loop E calib rest g')
      else if key = of_char CHR ''d'' \<or> key = of_char CHR ''D''
      then (case main_key_d g of
              Inl e \<Rightarrow> Inl e
            | Inr g' \<Rightarrow> main_loop E calib rest g')
      else if key = of_char CHR ''q'' \<or> key = of_char CHR ''Q''
      then Inr (fst (main_key_q E calib fsOpened g))
      else main_loop E calib rest g)"

text \<open>The globals when the loop starts: the frame names come from the node's parameters,
  \<open>iEE\<close> and \<open>iCam\<close> are the default-constructed reference transforms.\<close>

definition initial_globals ::
  "string \<Rightarrow> string \<Rightarrow> string \<Rightarrow> string \<Rightarrow> Affine3d \<Rightarrow> Affine3d \<Rightarrow> globals" where
  "initial_globals cameraTF ARTagTF EETF baseTF iEE iCam =
     \<lparr>firstEEInverse = iEE, firstCamInverse = iCam, firstTransform = True,
      tvecsArm = [], rvecsArm = [], tvecsFiducial = [], rvecsFiducial = [],
      cameraTFname = cameraTF, ARTagTFname = ARTagTF, EETFname = EETF, baseTFname = baseTF,
      baseToTip = [], cameraToTag = [], rosout = [],
      transformPairsRecordFile = None, calibratedTransformFile = None\<rparr>"

text \<open>The branch of \<^verbatim>\<open>main\<close> taken with \<^verbatim>\<open>load_transforms_from_file\<close>: the return code of the
  read is not looked at.\<close>

definition main_load ::
  "eigen \<Rightarrow> estimator \<Rightarrow> (real \<Rightarrow> real) \<Rightarrow> FileStorage option \<Rightarrow> Affine3d \<Rightarrow> Affine3d \<Rightarrow> bool
     \<Rightarrow> globals \<Rightarrow> error + globals" where
  "main_load E calib P transformPairsLoadFile uEE uCam fsOpened g =
     (case readTransformPairsFromFile P transformPairsLoadFile [] [] of
        Inl e \<Rightarrow> Inl e
      | Inr (rc, t1, t2) \<Rightarrow>
          (case estimateHandEye E calib uEE uCam t1 t2 g of
             Inl e \<Rightarrow> Inl e
           | Inr (g', result, summary) \<Rightarrow>
               Inr (case writeCalibration E result fsOpened summary of
                      Some fs \<Rightarrow> g'\<lparr>calibratedTransformFile := Some fs\<rparr>
                    | None \<Rightarrow> g')))"

section \<open>Notions used in the statements\<close>

text \<open>The entries that the loop of \<^verbatim>\<open>writeTransformPairsToFile\<close> appends, starting at index
  \<open>i\<close>.\<close>

fun pair_entries :: "nat \<Rightarrow> Affine3d list \<Rightarrow> Affine3d list \<Rightarrow> FileStorage" where
  "pair_entries i [] t2 = []"
| "pair_entries i (a # t1) [] = []"
| "pair_entries i (a # t1) (b # t2) =
     (T1_key i, MatVal (eigen2cv a)) # (T2_key i, MatVal (eigen2cv b)) # pair_entries (Suc i) t1 t2"

text \<open>A function applied to the sixteen coefficients of a transform, and two transforms
  whose coefficients differ by at most \<open>eps\<close>, coefficient by coefficient of the Eigen
  matrices themselves.\<close>

fun map_row :: "(real \<Rightarrow> real) \<Rightarrow> row4 \<Rightarrow> row4" where
  "map_row P (a, b, c, d) = (P a, P b, P c, P d)"

definition map_coeffs :: "(real \<Rightarrow> real) \<Rightarrow> Affine3d \<Rightarrow> Affine3d" where
  "map_coeffs P m =
     Affine3d (map_row P (row0 m)) (map_row P (row1 m)) (map_row P (row2 m)) (map_row P (row3 m))"

fun row_within :: "real \<Rightarrow> row4 \<Rightarrow> row4 \<Rightarrow> bool" where
  "row_within eps (a, b, c, d) (a', b', c', d') \<longleftrightarrow>
     \<bar>a - a'\<bar> \<le> eps \<and> \<bar>b - b'\<bar> \<le> eps \<and> \<bar>c - c'\<bar> \<le> eps \<and> \<bar>d - d'\<bar> \<le> eps"

definition coeffs_within :: "real \<Rightarrow> Affine3d \<Rightarrow> Affine3d \<Rightarrow> bool" where
  "coeffs_within eps m n \<longleftrightarrow>
     row_within eps (row0 m) (row0 n) \<and> row_within eps (row1 m) (row1 n)
   \<and> row_within eps (row2 m) (row2 n) \<and> row_within eps (row3 m) (row3 n)"



section \<open>Example data\<close>

text \<open>Eigen's operations on pure translations (transforms with the identity as rotation
  part), and the translation by \<open>(x, y, z)\<close>. The examples below run the functions on them.\<close>

definition translation_eigen :: eigen where
  "translation_eigen =
     \<lparr>inverse_aff = (\<lambda>m. case m of
                        Affine3d (a0, a1, a2, x) (b0, b1, b2, y) (c0, c1, c2, z) d \<Rightarrow>
                          Affine3d (1, 0, 0, - x) (0, 1, 0, - y) (0, 0, 1, - z) (0, 0, 0, 1)),
      times_aff = (\<lambda>m n. case (m, n) of
                        (Affine3d (a0, a1, a2, x) (b0, b1, b2, y) (c0, c1, c2, z) d,
                         Affine3d (a0', a1', a2', x') (b0', b1', b2', y') (c0', c1', c2', z') d') \<Rightarrow>
                          Affine3d (1, 0, 0, x + x') (0, 1, 0, y + y') (0, 0, 1, z + z') (0, 0, 0, 1)),
      rotation = (\<lambda>m. Matrix3d (1, 0, 0) (0, 1, 0) (0, 0, 1)),
      translation = (\<lambda>m. case m of
                        Affine3d (a0, a1, a2, x) (b0, b1, b2, y) (c0, c1, c2, z) d \<Rightarrow>
                          Vector3d x y z),
      to_AngleAxisd = (\<lambda>R. \<lparr>angle = 0, axis = Vector3d 1 0 0\<rparr>),
      to_Quaterniond = (\<lambda>R. Quaterniond 0 0 0 1)\<rparr>"

definition shift :: "real \<Rightarrow> real \<Rightarrow> real \<Rightarrow> Affine3d" where
  "shift x y z = Affine3d (1, 0, 0, x) (0, 1, 0, y) (0, 0, 1, z) (0, 0, 0, 1)"

text \<open>Eigen's operations on rigid transforms: the inverse of \<open>(R, t)\<close> is \<open>(R\<^sup>T, - R\<^sup>T t)\<close>, the
  product is the matrix product. The conversions of a rotation are given on the two
  rotations of the examples, the identity and the quarter turn about the z axis. The
  transform \<open>quarter_turn x y z\<close> is that turn followed by the translation by \<open>(x, y, z)\<close>.\<close>

definition quarter_turn :: "real \<Rightarrow> real \<Rightarrow> real \<Rightarrow> Affine3d" where
  "quarter_turn x y z = Affine3d (0, - 1, 0, x) (1, 0, 0, y) (0, 0, 1, z) (0, 0, 0, 1)"

definition rigid_eigen :: eigen where
  "rigid_eigen =
     \<lparr>inverse_aff = (\<lambda>m. case m of
                        Affine3d (a0, a1, a2, x) (b0, b1, b2, y) (c0, c1, c2, z) d \<Rightarrow>
                          Affine3d (a0, b0, c0, - (a0 * x + b0 * y + c0 * z))
                                   (a1, b1, c1, - (a1 * x + b1 * y + c1 * z))
                                   (a2, b2, c2, - (a2 * x + b2 * y + c2 * z))
                                   (0, 0, 0, 1)),
      times_aff = (\<lambda>m n. case (m, n) of
                        (Affine3d (a0, a1, a2, x) (b0, b1, b2, y) (c0, c1, c2, z) d,
                         Affine3d (a0', a1', a2', x') (b0', b1', b2', y') (c0', c1', c2', z') d') \<Rightarrow>
                          Affine3d
                            (a0 * a0' + a1 * b0' + a2 * c0', a0 * a1' + a1 * b1' + a2 * c1',
                             a0 * a2' + a1 * b2' + a2 * c2', a0 * x' + a1 * y' + a2 * z' + x)
                            (b0 * a0' + b1 * b0' + b2 * c0', b0 * a1' + b1 * b1' + b2 * c1',
                             b0 * a2' + b1 * b2' + b2 * c2', b0 * x' + b1 * y' + b2 * z' + y)
                            (c0 * a0' + c1 * b0' + c2 * c0', c0 * a1' + c1 * b1' + c2 * c1',
                             c0 * a2' + c1 * b2' + c2 * c2', c0 * x' + c1 * y' + c2 * z' + z)
                            (0, 0, 0, 1)),
      rotation = (\<lambda>m. case m of
                        Affine3d (a0, a1, a2, x) (b0, b1, b2, y) (c0, c1, c2, z) d \<Rightarrow>
                          Matrix3d (a0, a1, a2) (b0, b1, b2) (c0, c1, c2)),
      translation = (\<lambda>m. case m of
                        Affine3d (a0, a1, a2, x) (b0, b1, b2, y) (c0, c1, c2, z) d \<Rightarrow>
                          Vector3d x y z),
      to_AngleAxisd = (\<lambda>R. if R = Matrix3d (0, - 1, 0) (1, 0, 0) (0, 0, 1)
                            then \<lparr>angle = pi / 2, axis = Vector3d 0 0 1\<rparr>
                            else \<lparr>angle = 0, axis = Vector3d 1 0 0\<rparr>),
      to_Quaterniond = (\<lambda>R. if R = Matrix3d (0, - 1, 0) (1, 0, 0) (0, 0, 1)
                             then Quaterniond 0 0 (sqrt 2 / 2) (sqrt 2 / 2)
                             else Quaterniond 0 0 0 1)\<rparr>"

definition example_calib :: estimator where
  "example_calib rA tA rF tF =
     (shift 0 0 0,
      \<lparr>initial_cost = 2, final_cost = 1 / 2, termination_type = 0,
       num_successful_steps = int (length rA), num_unsuccessful_steps = 1\<rparr>)"

definition example_globals :: globals where
  "example_globals =
     initial_globals ''/camera_2_link'' ''/camera_2/ar_marker_0'' ''/ee_fixed_link'' ''/base_link''
       (shift 0 0 0) (shift 0 0 0)"

text \<open>The globals after two captures, and a pair file with one pair.\<close>

definition example_two_captures :: globals where
  "example_two_captures =
     addFrame translation_eigen (Some (shift 0 0 7)) (Some (shift 2 3 4))
       (addFrame translation_eigen (Some (shift 0 0 0)) (Some (shift 1 1 1)) example_globals)"

definition example_file :: FileStorage where
  "example_file =
     [(''frameCount'', IntVal 1),
      (''T1_0'', MatVal [[1, 0, 0, 1], [0, 1, 0, 2], [0, 0, 1, 3], [0, 0, 0, 1]]),
      (''T2_0'', MatVal [[1, 0, 0, 4], [0, 1, 0, 5], [0, 0, 1, 6], [0, 0, 0, 1]])]"

section \<open>Facts about the example data\<close>

lemma translation_eigen_simps:
  "inverse_aff translation_eigen (shift x y z) = shift (- x) (- y) (- z)"
  "times_aff translation_eigen (shift x y z) (shift x' y' z') = shift (x + x') (y + y') (z + z')"
  "translation translation_eigen (shift x y z) = Vector3d x y z"
  "to_AngleAxisd translation_eigen R = \<lparr>angle = 0, axis = Vector3d 1 0 0\<rparr>"
  "to_Quaterniond translation_eigen R = Quaterniond 0 0 0 1"
  by (simp_all add: translation_eigen_def shift_def)

lemma eigenRot_translation_eigen:
  "eigenRotToEigenVector3dAngleAxis translation_eigen R = Vector3d 0 0 0"
  by (simp add: eigenRotToEigenVector3dAngleAxis_def scale_def translation_eigen_simps)

lemma rigid_eigen_simps:
  "inverse_aff rigid_eigen (shift x y z) = shift (- x) (- y) (- z)"
  "times_aff rigid_eigen (shift x y z) (shift x' y' z') = shift (x + x') (y + y') (z + z')"
  "times_aff rigid_eigen (shift x y z) (quarter_turn x' y' z') = quarter_turn (x + x') (y + y') (z + z')"
  "rotation rigid_eigen (shift x y z) = Matrix3d (1, 0, 0) (0, 1, 0) (0, 0, 1)"
  "rotation rigid_eigen (quarter_turn x y z) = Matrix3d (0, - 1, 0) (1, 0, 0) (0, 0, 1)"
  "translation rigid_eigen (shift x y z) = Vector3d x y z"
  "translation rigid_eigen (quarter_turn x y z) = Vector3d x y z"
  "to_AngleAxisd rigid_eigen (Matrix3d (0, - 1, 0) (1, 0, 0) (0, 0, 1)) =
     \<lparr>angle = pi / 2, axis = Vector3d 0 0 1\<rparr>"
  "to_AngleAxisd rigid_eigen (Matrix3d (1, 0, 0) (0, 1, 0) (0, 0, 1)) =
     \<lparr>angle = 0, axis = Vector3d 1 0 0\<rparr>"
  by (simp_all add: rigid_eigen_def shift_def quarter_turn_def)

lemma example_two_captures_fields:
  "\<not> firstTransform example_two_captures"
  "firstEEInverse example_two_captures = shift (- 1) (- 1) (- 1)"
  "firstCamInverse example_two_captures = shift 0 0 0"
  "baseToTip example_two_captures = [shift 1 1 1, shift 2 3 4]"
  "cameraToTag example_two_captures = [shift 0 0 0, shift 0 0 7]"
  "rvecsArm example_two_captures = [Vector3d 0 0 0]"
  "tvecsArm example_two_captures = [Vector3d 1 2 3]"
  "rvecsFiducial example_two_captures = [Vector3d 0 0 0]"
  "tvecsFiducial example_two_captures = [Vector3d 0 0 7]"
  by (simp_all add: example_two_captures_def example_globals_def initial_globals_def
        addFrame_def ROS_INFO_def Let_def translation_eigen_simps eigenRot_translation_eigen)

lemma example_file_reads:
  "read_int example_file ''frameCount'' = Inr 1"
  "read_mat (\<lambda>y. y) example_file (T1_key 0) = Inr (shift 1 2 3)"
  "read_mat (\<lambda>y. y) example_file (T2_key 0) = Inr (shift 4 5 6)"
  by (simp_all add: example_file_def read_int_def read_mat_def T1_key_def T2_key_def
        string_of_nat.simps digit_char_def shift_def)

section \<open>The relative motions derived by \<^verbatim>\<open>estimateHandEye\<close>\<close>

text \<open>Once the first pair has been seen, every further pair of the list appends one entry
  to each of the four vectors, computed against the stored inverses.\<close>

lemma estimateHandEye_loop_later:
  assumes "\<not> firstTransform l"
  shows "\<exists>g'. estimateHandEye_loop E (map fst ps) (map snd ps) (g, l) =
           Inr (g', l\<lparr>rvecsArm := rvecsArm l @
                        map (\<lambda>p. eigenRotToEigenVector3dAngleAxis E
                                   (rotation E (times_aff E (firstEEInverse l) (fst p)))) ps,
                      tvecsArm := tvecsArm l @
                        map (\<lambda>p. translation E (times_aff E (firstEEInverse l) (fst p))) ps,
                      rvecsFiducial := rvecsFiducial l @
                        map (\<lambda>p. eigenRotToEigenVector3dAngleAxis E
                                   (rotation E (times_aff E (firstCamInverse l) (snd p)))) ps,
                      tvecsFiducial := tvecsFiducial l @
                        map (\<lambda>p. translation E (times_aff E (firstCamInverse l) (snd p))) ps\<rparr>)"
  using assms
proof (induction ps arbitrary: g l)
  case Nil
  then show ?case by simp
next
  case (Cons p ps)
  obtain g1 l1 where step: "estimateHandEye_body E (fst p) (snd p) (g, l) = (g1, l1)"
    by (cases "estimateHandEye_body E (fst p) (snd p) (g, l)")
  from step Cons.prems have l1:
    "l1 = l\<lparr>rvecsArm := rvecsArm l @
               [eigenRotToEigenVector3dAngleAxis E (rotation E (times_aff E (firstEEInverse l) (fst p)))],
            tvecsArm := tvecsArm l @ [translation E (times_aff E (firstEEInverse l) (fst p))],
            rvecsFiducial := rvecsFiducial l @
               [eigenRotToEigenVector3dAngleAxis E (rotation E (times_aff E (firstCamInverse l) (snd p)))],
            tvecsFiducial := tvecsFiducial l @
               [translation E (times_aff E (firstCamInverse l) (snd p))]\<rparr>"
    by (auto simp: estimateHandEye_body_def Let_def)
  then have "\<not> firstTransform l1" using Cons.prems by simp
  from Cons.IH [OF this, of g1] obtain g' where
    "estimateHandEye_loop E (map fst ps) (map snd ps) (g1, l1) =
       Inr (g', l1\<lparr>rvecsArm := rvecsArm l1 @
                        map (\<lambda>p. eigenRotToEigenVector3dAngleAxis E
                                   (rotation E (times_aff E (firstEEInverse l1) (fst p)))) ps,
                      tvecsArm := tvecsArm l1 @
                        map (\<lambda>p. translation E (times_aff E (firstEEInverse l1) (fst p))) ps,
                      rvecsFiducial := rvecsFiducial l1 @
                        map (\<lambda>p. eigenRotToEigenVector3dAngleAxis E
                                   (rotation E (times_aff E (firstCamInverse l1) (snd p)))) ps,
                      tvecsFiducial := tvecsFiducial l1 @
                        map (\<lambda>p. translation E (times_aff E (firstCamInverse l1) (snd p))) ps\<rparr>)"
    by blast
  then show ?case
    by (simp add: step l1)
qed

text \<open>The first iteration stores the two inverses and overwrites whatever the local
  transforms held.\<close>

lemma estimateHandEye_body_first:
  "estimateHandEye_body E a b (g, estimateHandEye_locals uEE uCam) =
     (ROS_INFO ''Adding first transformation.'' g,
      \<lparr>firstEEInverse = inverse_aff E a, firstCamInverse = inverse_aff E b,
       firstTransform = False,
       tvecsArm = [], rvecsArm = [], tvecsFiducial = [], rvecsFiducial = []\<rparr>)"
  by (simp add: estimateHandEye_body_def estimateHandEye_locals_def)

text \<open>The vector that \<^verbatim>\<open>eigenRotToEigenVector3dAngleAxis\<close> returns, component by component:
  the angle of the conversion times each coordinate of its axis.\<close>

lemma eigenRotToEigenVector3dAngleAxis_components:
  "eigenRotToEigenVector3dAngleAxis E R =
     Vector3d (angle (to_AngleAxisd E R) * vec_x (axis (to_AngleAxisd E R)))
              (angle (to_AngleAxisd E R) * vec_y (axis (to_AngleAxisd E R)))
              (angle (to_AngleAxisd E R) * vec_z (axis (to_AngleAxisd E R)))"
  by (simp add: eigenRotToEigenVector3dAngleAxis_def scale_def Let_def)

text \<open>Claim C1. For a non-empty list of \<open>N\<close> pose pairs the loop of \<^verbatim>\<open>estimateHandEye\<close>
  returns, with \<open>N - 1\<close> entries in each of the four relative-motion vectors; with two pairs
  or more, the first entry is the motion of pair 1 against pair 0: for \<open>poseA[0]\<^sup>-\<^sup>1 * poseA[1]\<close>
  the rotation vector is the angle times the axis of the angle-axis form of its rotation
  part, the translation vector is its translation part, and the same for \<open>poseB\<close>.
  More generally, entry \<open>i\<close> is the motion of pair \<open>i + 1\<close> against pair 0.\<close>

theorem estimateHandEye_relative_motions:
  assumes "pairs \<noteq> []"
  shows "\<exists>g' l'.
           estimateHandEye_loop E (map fst pairs) (map snd pairs)
             (g, estimateHandEye_locals uEE uCam) = Inr (g', l')
         \<and> length (rvecsArm l') = length pairs - 1
         \<and> length (tvecsArm l') = length pairs - 1
         \<and> length (rvecsFiducial l') = length pairs - 1
         \<and> length (tvecsFiducial l') = length pairs - 1
         \<and> (2 \<le> length pairs \<longrightarrow>
              rvecsArm l' ! 0 =
                (let ax = to_AngleAxisd E
                            (rotation E (times_aff E (inverse_aff E (fst (pairs ! 0))) (fst (pairs ! 1))))
                 in Vector3d (angle ax * vec_x (axis ax)) (angle ax * vec_y (axis ax))
                             (angle ax * vec_z (axis ax)))
            \<and> tvecsArm l' ! 0 =
                translation E (times_aff E (inverse_aff E (fst (pairs ! 0))) (fst (pairs ! 1)))
            \<and> rvecsFiducial l' ! 0 =
                (let ax = to_AngleAxisd E
                            (rotation E (times_aff E (inverse_aff E (snd (pairs ! 0))) (snd (pairs ! 1))))
                 in Vector3d (angle ax * vec_x (axis ax)) (angle ax * vec_y (axis ax))
                             (angle ax * vec_z (axis ax)))
            \<and> tvecsFiducial l' ! 0 =
                translation E (times_aff E (inverse_aff E (snd (pairs ! 0))) (snd (pairs ! 1))))
         \<and> (\<forall>i. Suc i < length pairs \<longrightarrow>
              rvecsArm l' ! i =
                (let ax = to_AngleAxisd E
                            (rotation E (times_aff E (inverse_aff E (fst (pairs ! 0))) (fst (pairs ! Suc i))))
                 in Vector3d (angle ax * vec_x (axis ax)) (angle ax * vec_y (axis ax))
                             (angle ax * vec_z (axis ax)))
            \<and> tvecsArm l' ! i =
                translation E (times_aff E (inverse_aff E (fst (pairs ! 0))) (fst (pairs ! Suc i)))
            \<and> rvecsFiducial l' ! i =
                (let ax = to_AngleAxisd E
                            (rotation E (times_aff E (inverse_aff E (snd (pairs ! 0))) (snd (pairs ! Suc i))))
                 in Vector3d (angle ax * vec_x (axis ax)) (angle ax * vec_y (axis ax))
                             (angle ax * vec_z (axis ax)))
            \<and> tvecsFiducial l' ! i =
                translation E (times_aff E (inverse_aff E (snd (pairs ! 0))) (snd (pairs ! Suc i))))"
proof -
  from assms obtain p0 rest where pairs: "pairs = p0 # rest"
    by (cases pairs) auto
  define rA where "rA = map (\<lambda>p. eigenRotToEigenVector3dAngleAxis E
                          (rotation E (times_aff E (inverse_aff E (fst p0)) (fst p)))) rest"
  define tA where "tA = map (\<lambda>p. translation E (times_aff E (inverse_aff E (fst p0)) (fst p))) rest"
  define rF where "rF = map (\<lambda>p. eigenRotToEigenVector3dAngleAxis E
                          (rotation E (times_aff E (inverse_aff E (snd p0)) (snd p)))) rest"
  define tF where "tF = map (\<lambda>p. translation E (times_aff E (inverse_aff E (snd p0)) (snd p))) rest"
  let ?l = "\<lparr>firstEEInverse = inverse_aff E (fst p0), firstCamInverse = inverse_aff E (snd p0),
             firstTransform = False,
             tvecsArm = [], rvecsArm = [], tvecsFiducial = [], rvecsFiducial = []\<rparr>"
  let ?l' = "\<lparr>firstEEInverse = inverse_aff E (fst p0), firstCamInverse = inverse_aff E (snd p0),
              firstTransform = False,
              tvecsArm = tA, rvecsArm = rA, tvecsFiducial = tF, rvecsFiducial = rF\<rparr>"
  have "\<not> firstTransform ?l" by simp
  from estimateHandEye_loop_later [OF this, of E rest "ROS_INFO ''Adding first transformation.'' g"]
  obtain g' where
    "estimateHandEye_loop E (map fst rest) (map snd rest)
       (ROS_INFO ''Adding first transformation.'' g, ?l) = Inr (g', ?l')"
    by (auto simp: rA_def tA_def rF_def tF_def)
  then have run: "estimateHandEye_loop E (map fst pairs) (map snd pairs)
                    (g, estimateHandEye_locals uEE uCam) = Inr (g', ?l')"
    by (simp add: pairs estimateHandEye_body_first)
  have len: "length rA = length pairs - 1" "length tA = length pairs - 1"
    "length rF = length pairs - 1" "length tF = length pairs - 1"
    by (simp_all add: rA_def tA_def rF_def tF_def pairs)
  have entry: "rA ! i =
                (let ax = to_AngleAxisd E
                            (rotation E (times_aff E (inverse_aff E (fst (pairs ! 0))) (fst (pairs ! Suc i))))
                 in Vector3d (angle ax * vec_x (axis ax)) (angle ax * vec_y (axis ax))
                             (angle ax * vec_z (axis ax)))
            \<and> tA ! i =
                translation E (times_aff E (inverse_aff E (fst (pairs ! 0))) (fst (pairs ! Suc i)))
            \<and> rF ! i =
                (let ax = to_AngleAxisd E
                            (rotation E (times_aff E (inverse_aff E (snd (pairs ! 0))) (snd (pairs ! Suc i))))
                 in Vector3d (angle ax * vec_x (axis ax)) (angle ax * vec_y (axis ax))
                             (angle ax * vec_z (axis ax)))
            \<and> tF ! i =
                translation E (times_aff E (inverse_aff E (snd (pairs ! 0))) (snd (pairs ! Suc i)))"
    if "Suc i < length pairs" for i
    using that
    by (simp add: rA_def tA_def rF_def tF_def pairs eigenRotToEigenVector3dAngleAxis_components Let_def)
  have first: "rA ! 0 =
                (let ax = to_AngleAxisd E
                            (rotation E (times_aff E (inverse_aff E (fst (pairs ! 0))) (fst (pairs ! 1))))
                 in Vector3d (angle ax * vec_x (axis ax)) (angle ax * vec_y (axis ax))
                             (angle ax * vec_z (axis ax)))
            \<and> tA ! 0 =
                translation E (times_aff E (inverse_aff E (fst (pairs ! 0))) (fst (pairs ! 1)))
            \<and> rF ! 0 =
                (let ax = to_AngleAxisd E
                            (rotation E (times_aff E (inverse_aff E (snd (pairs ! 0))) (snd (pairs ! 1))))
                 in Vector3d (angle ax * vec_x (axis ax)) (angle ax * vec_y (axis ax))
                             (angle ax * vec_z (axis ax)))
            \<and> tF ! 0 =
                translation E (times_aff E (inverse_aff E (snd (pairs ! 0))) (snd (pairs ! 1)))"
    if "2 \<le> length pairs"
    using that entry [of 0] by simp
  from run len first entry show ?thesis
    by (intro exI [of _ g'] exI [of _ ?l']) simp
qed

theorem estimateHandEye_relative_motions_witness:
  "[(shift 1 0 0, shift 5 5 5), (quarter_turn 1 2 3, shift 5 6 8)] \<noteq> []
   \<and> (\<exists>g' l'.
        estimateHandEye_loop rigid_eigen
          (map fst [(shift 1 0 0, shift 5 5 5), (quarter_turn 1 2 3, shift 5 6 8)])
          (map snd [(shift 1 0 0, shift 5 5 5), (quarter_turn 1 2 3, shift 5 6 8)])
          (example_globals, estimateHandEye_locals (shift 9 9 9) (shift 9 9 9)) = Inr (g', l')
        \<and> length (rvecsArm l') = 1
        \<and> rvecsArm l' ! 0 = Vector3d 0 0 (pi / 2)
        \<and> tvecsArm l' ! 0 = Vector3d 0 2 3
        \<and> rvecsFiducial l' ! 0 = Vector3d 0 0 0
        \<and> tvecsFiducial l' ! 0 = Vector3d 0 1 3)"
proof -
  let ?ps = "[(shift 1 0 0, shift 5 5 5), (quarter_turn 1 2 3, shift 5 6 8)]"
  have ne: "?ps \<noteq> []" by simp
  from estimateHandEye_relative_motions [OF ne, of rigid_eigen example_globals "shift 9 9 9" "shift 9 9 9"]
  obtain g' l' where
    run: "estimateHandEye_loop rigid_eigen (map fst ?ps) (map snd ?ps)
            (example_globals, estimateHandEye_locals (shift 9 9 9) (shift 9 9 9)) = Inr (g', l')"
    and len: "length (rvecsArm l') = length ?ps - 1"
    and first: "2 \<le> length ?ps \<longrightarrow>
              rvecsArm l' ! 0 =
                (let ax = to_AngleAxisd rigid_eigen
                            (rotation rigid_eigen
                               (times_aff rigid_eigen (inverse_aff rigid_eigen (fst (?ps ! 0)))
                                  (fst (?ps ! 1))))
                 in Vector3d (angle ax * vec_x (axis ax)) (angle ax * vec_y (axis ax))
                             (angle ax * vec_z (axis ax)))
            \<and> tvecsArm l' ! 0 =
                translation rigid_eigen
                  (times_aff rigid_eigen (inverse_aff rigid_eigen (fst (?ps ! 0))) (fst (?ps ! 1)))
            \<and> rvecsFiducial l' ! 0 =
                (let ax = to_AngleAxisd rigid_eigen
                            (rotation rigid_eigen
                               (times_aff rigid_eigen (inverse_aff rigid_eigen (snd (?ps ! 0)))
                                  (snd (?ps ! 1))))
                 in Vector3d (angle ax * vec_x (axis ax)) (angle ax * vec_y (axis ax))
                             (angle ax * vec_z (axis ax)))
            \<and> tvecsFiducial l' ! 0 =
                translation rigid_eigen
                  (times_aff rigid_eigen (inverse_aff rigid_eigen (snd (?ps ! 0))) (snd (?ps ! 1)))"
    by blast
  from len first have
    "length (rvecsArm l') = 1
     \<and> rvecsArm l' ! 0 = Vector3d 0 0 (pi / 2)
     \<and> tvecsArm l' ! 0 = Vector3d 0 2 3
     \<and> rvecsFiducial l' ! 0 = Vector3d 0 0 0
     \<and> tvecsFiducial l' ! 0 = Vector3d 0 1 3"
    by (simp add: rigid_eigen_simps)
  with ne run show ?thesis by blast
qed

text \<open>The local variables after an iteration do not depend on the globals, and the globals
  change on the console only.\<close>

lemma estimateHandEye_body_snd:
  "snd (estimateHandEye_body E a b (g, l)) = snd (estimateHandEye_body E a b (h, l))"
  by (simp add: estimateHandEye_body_def Let_def)

lemma estimateHandEye_body_fst:
  "fst (estimateHandEye_body E a b (g, l)) =
     g\<lparr>rosout := rosout g @
         [(Info, if firstTransform l then ''Adding first transformation.''
                 else ''Hand Eye Calibration Transform Pair Added'')]\<rparr>"
  by (simp add: estimateHandEye_body_def Let_def ROS_INFO_def)

lemma estimateHandEye_loop_globals_irrelevant:
  "map_sum id snd (estimateHandEye_loop E t1 t2 (g, l)) =
   map_sum id snd (estimateHandEye_loop E t1 t2 (h, l))"
proof (induction t1 arbitrary: t2 g h l)
  case Nil
  then show ?case by simp
next
  case (Cons a t1)
  show ?case
  proof (cases t2)
    case Nil
    then show ?thesis by simp
  next
    case (Cons b t2')
    obtain g1 l1 where sg: "estimateHandEye_body E a b (g, l) = (g1, l1)"
      by (cases "estimateHandEye_body E a b (g, l)")
    obtain h1 l2 where sh: "estimateHandEye_body E a b (h, l) = (h1, l2)"
      by (cases "estimateHandEye_body E a b (h, l)")
    from sg sh estimateHandEye_body_snd [of E a b g l h] have "l2 = l1" by simp
    with sg sh Cons Cons.IH [of t2' g1 l1 h1] show ?thesis by simp
  qed
qed

lemma estimateHandEye_loop_console_only:
  "estimateHandEye_loop E t1 t2 (g, l) = Inr (g', l') \<Longrightarrow>
     \<exists>msgs. g' = g\<lparr>rosout := rosout g @ msgs\<rparr>"
proof (induction t1 arbitrary: t2 g l)
  case Nil
  then have "g' = g\<lparr>rosout := rosout g @ []\<rparr>" by simp
  then show ?case by blast
next
  case (Cons a t1)
  from Cons.prems obtain b t2' where t2: "t2 = b # t2'"
    by (cases t2) auto
  obtain g1 l1 where sg: "estimateHandEye_body E a b (g, l) = (g1, l1)"
    by (cases "estimateHandEye_body E a b (g, l)")
  from estimateHandEye_body_fst [of E a b g l] sg obtain m1 where
    g1: "g1 = g\<lparr>rosout := rosout g @ m1\<rparr>" by simp
  from Cons.prems t2 sg have "estimateHandEye_loop E t1 t2' (g1, l1) = Inr (g', l')" by simp
  from Cons.IH [OF this] obtain m2 where "g' = g1\<lparr>rosout := rosout g1 @ m2\<rparr>" by blast
  with g1 have "g' = g\<lparr>rosout := rosout g @ (m1 @ m2)\<rparr>" by simp
  then show ?case by blast
qed

text \<open>Claim C8. The derivation is a function of the two pose lists alone: started from any
  two global states \<open>g\<close> and \<open>h\<close>, and with any contents \<open>uEE\<close>, \<open>uCam\<close>, \<open>vEE\<close>, \<open>vCam\<close> of the
  uninitialised local transforms, the loop of \<^verbatim>\<open>estimateHandEye\<close> gives the same four
  relative-motion vectors, entry for entry (or stops at the same undefined read); and apart
  from the console it leaves the globals as they were.\<close>

theorem relative_motions_independent_of_state:
  "map_sum id (\<lambda>(g', l'). (rvecsArm l', tvecsArm l', rvecsFiducial l', tvecsFiducial l'))
     (estimateHandEye_loop E t1 t2 (g, estimateHandEye_locals uEE uCam)) =
   map_sum id (\<lambda>(g', l'). (rvecsArm l', tvecsArm l', rvecsFiducial l', tvecsFiducial l'))
     (estimateHandEye_loop E t1 t2 (h, estimateHandEye_locals vEE vCam))
   \<and> (case estimateHandEye_loop E t1 t2 (g, estimateHandEye_locals uEE uCam) of
         Inl e \<Rightarrow> True
       | Inr (g', l') \<Rightarrow> g'\<lparr>rosout := rosout g\<rparr> = g)"
proof
  show "map_sum id (\<lambda>(g', l'). (rvecsArm l', tvecsArm l', rvecsFiducial l', tvecsFiducial l'))
     (estimateHandEye_loop E t1 t2 (g, estimateHandEye_locals uEE uCam)) =
   map_sum id (\<lambda>(g', l'). (rvecsArm l', tvecsArm l', rvecsFiducial l', tvecsFiducial l'))
     (estimateHandEye_loop E t1 t2 (h, estimateHandEye_locals vEE vCam))"
  proof (cases t1)
    case Nil
    then show ?thesis by (simp add: estimateHandEye_locals_def)
  next
    case (Cons a t1')
    show ?thesis
    proof (cases t2)
      case Nil
      with Cons show ?thesis by simp
    next
      case (Cons b t2')
      let ?l = "\<lparr>firstEEInverse = inverse_aff E a, firstCamInverse = inverse_aff E b,
                 firstTransform = False,
                 tvecsArm = [], rvecsArm = [], tvecsFiducial = [], rvecsFiducial = []\<rparr>"
      let ?pr = "\<lambda>l'::motion_buffers.
                   (rvecsArm l', tvecsArm l', rvecsFiducial l', tvecsFiducial l')"
      let ?msg = "''Adding first transformation.''"
      have eq: "(\<lambda>(g', l'). ?pr l') = ?pr \<circ> snd"
        by (simp add: fun_eq_iff)
      have "map_sum id snd (estimateHandEye_loop E t1' t2' (ROS_INFO ?msg g, ?l)) =
            map_sum id snd (estimateHandEye_loop E t1' t2' (ROS_INFO ?msg h, ?l))"
        by (rule estimateHandEye_loop_globals_irrelevant)
      then have
        "map_sum id ?pr (map_sum id snd (estimateHandEye_loop E t1' t2' (ROS_INFO ?msg g, ?l))) =
         map_sum id ?pr (map_sum id snd (estimateHandEye_loop E t1' t2' (ROS_INFO ?msg h, ?l)))"
        by simp
      then show ?thesis
        using \<open>t1 = a # t1'\<close> Cons
        by (simp add: estimateHandEye_body_first eq sum.map_comp)
    qed
  qed
next
  show "case estimateHandEye_loop E t1 t2 (g, estimateHandEye_locals uEE uCam) of
          Inl e \<Rightarrow> True
        | Inr (g', l') \<Rightarrow> g'\<lparr>rosout := rosout g\<rparr> = g"
  proof (cases "estimateHandEye_loop E t1 t2 (g, estimateHandEye_locals uEE uCam)")
    case (Inl e)
    then show ?thesis by simp
  next
    case (Inr r)
    obtain g' l' where r: "r = (g', l')" by (cases r)
    from estimateHandEye_loop_console_only [OF Inr [unfolded r]]
    obtain msgs where "g' = g\<lparr>rosout := rosout g @ msgs\<rparr>" by blast
    then have "g'\<lparr>rosout := rosout g\<rparr> = g" by simp
    with Inr r show ?thesis by simp
  qed
qed

text \<open>A rotation for which the conversion reports the angle 0 gives the zero vector: the
  function multiplies the angle with the axis and divides nowhere. (What the conversion
  reports for a given matrix, and the special values of floating-point arithmetic, are not
  part of this model.)\<close>

lemma eigenRotToEigenVector3dAngleAxis_zero_angle:
  "angle (to_AngleAxisd E R) = 0 \<Longrightarrow> eigenRotToEigenVector3dAngleAxis E R = Vector3d 0 0 0"
  by (simp add: eigenRotToEigenVector3dAngleAxis_def scale_def)

section \<open>Capture, undo and finalize\<close>

lemma addFrame_failure:
  assumes "camLookup = None \<or> eeLookup = None"
  shows "addFrame E camLookup eeLookup g =
           g\<lparr>rosout := rosout g
               @ (case camLookup of
                    None \<Rightarrow> [(Warn, ''Fail to Cam TF transform between '' @ ARTagTFname g
                                      @ '' to '' @ cameraTFname g)]
                  | Some t \<Rightarrow> [])
               @ (case eeLookup of
                    None \<Rightarrow> [(Warn, ''Fail to EE TF transform between '' @ baseTFname g
                                      @ '' to '' @ EETFname g)]
                  | Some t \<Rightarrow> [])
               @ [(Warn, ''Fail to get one/both of needed TF transform'')]\<rparr>"
proof (cases camLookup)
  case None
  then show ?thesis
    by (cases eeLookup) (simp_all add: addFrame_def ROS_WARN_def)
next
  case (Some c)
  with assms have "eeLookup = None" by simp
  with Some show ?thesis
    by (simp add: addFrame_def ROS_WARN_def)
qed



text \<open>Claim C4. When one of the two lookups of \<^verbatim>\<open>addFrame\<close> times out, the capture is dropped:
  the two pose vectors, the four relative-motion vectors, the flag \<^verbatim>\<open>firstTransform\<close> and the
  two reference inverses keep their values, and the console gets warnings, the last of
  which says that a transform is missing.\<close>

theorem addFrame_lookup_failure_drops_capture:
  assumes "camLookup = None \<or> eeLookup = None"
  shows "baseToTip (addFrame E camLookup eeLookup g) = baseToTip g
       \<and> cameraToTag (addFrame E camLookup eeLookup g) = cameraToTag g
       \<and> rvecsArm (addFrame E camLookup eeLookup g) = rvecsArm g
       \<and> tvecsArm (addFrame E camLookup eeLookup g) = tvecsArm g
       \<and> rvecsFiducial (addFrame E camLookup eeLookup g) = rvecsFiducial g
       \<and> tvecsFiducial (addFrame E camLookup eeLookup g) = tvecsFiducial g
       \<and> firstTransform (addFrame E camLookup eeLookup g) = firstTransform g
       \<and> firstEEInverse (addFrame E camLookup eeLookup g) = firstEEInverse g
       \<and> firstCamInverse (addFrame E camLookup eeLookup g) = firstCamInverse g
       \<and> (\<exists>msgs. rosout (addFrame E camLookup eeLookup g) =
                    rosout g @ msgs @ [(Warn, ''Fail to get one/both of needed TF transform'')])"
  by (simp add: addFrame_failure [OF assms])

theorem addFrame_lookup_failure_drops_capture_witness:
  "((None :: Affine3d option) = None \<or> Some (shift 2 3 4) = None)
   \<and> baseToTip (addFrame translation_eigen None (Some (shift 2 3 4)) example_two_captures) =
       [shift 1 1 1, shift 2 3 4]
   \<and> cameraToTag (addFrame translation_eigen None (Some (shift 2 3 4)) example_two_captures) =
       [shift 0 0 0, shift 0 0 7]
   \<and> rvecsArm (addFrame translation_eigen None (Some (shift 2 3 4)) example_two_captures) =
       [Vector3d 0 0 0]
   \<and> tvecsArm (addFrame translation_eigen None (Some (shift 2 3 4)) example_two_captures) =
       [Vector3d 1 2 3]
   \<and> \<not> firstTransform (addFrame translation_eigen None (Some (shift 2 3 4)) example_two_captures)
   \<and> firstEEInverse (addFrame translation_eigen None (Some (shift 2 3 4)) example_two_captures) =
       shift (- 1) (- 1) (- 1)"
  using addFrame_lookup_failure_drops_capture
          [of None "Some (shift 2 3 4)" translation_eigen example_two_captures]
  by (simp add: example_two_captures_fields)

text \<open>Claim C2. When \<^verbatim>\<open>q\<close> is pressed with fewer than five relative motions, the console gets
  the warning, and the solver is still called on the four vectors as they are (also when
  they are empty): its result is the estimate that is reported and written to the result
  file, and the loop ends.\<close>

theorem finalize_below_five_warns_and_estimates:
  assumes "length (rvecsArm g) < 5"
  shows "snd (main_key_q E calib fsOpened g) =
           calib (rvecsArm g) (tvecsArm g) (rvecsFiducial g) (tvecsFiducial g)
       \<and> rosout (fst (main_key_q E calib fsOpened g)) =
           rosout g @ [(Warn, ''Number of calibration transform pairs < 5.''),
                       (Info, ''Node Quit''), (Info, ''Calculating Calibration...'')]
       \<and> calibratedTransformFile (fst (main_key_q E calib True g)) =
           writeCalibration E
             (fst (calib (rvecsArm g) (tvecsArm g) (rvecsFiducial g) (tvecsFiducial g))) True
             (snd (calib (rvecsArm g) (tvecsArm g) (rvecsFiducial g) (tvecsFiducial g)))
       \<and> main_loop E calib ((of_char CHR ''q'', camLookup, eeLookup, fsOpened) # rest) g =
           Inr (fst (main_key_q E calib fsOpened g))"
  using assms
  by (simp add: main_key_q_def ROS_INFO_def ROS_WARN_def Let_def writeCalibration_def
           split: prod.split)

theorem finalize_below_five_warns_and_estimates_witness:
  "length (rvecsArm example_globals) < 5
   \<and> snd (main_key_q translation_eigen example_calib True example_globals) =
        example_calib [] [] [] []
   \<and> rosout (fst (main_key_q translation_eigen example_calib True example_globals)) =
        [(Warn, ''Number of calibration transform pairs < 5.''),
         (Info, ''Node Quit''), (Info, ''Calculating Calibration...'')]"
  using finalize_below_five_warns_and_estimates
          [of example_globals translation_eigen example_calib True]
  by (simp add: example_globals_def initial_globals_def)

section \<open>The keys of the pose-pair file\<close>

lemma digit_char_inj:
  assumes "d < 10" "e < 10" "digit_char d = digit_char e"
  shows "d = e"
proof -
  have "distinct ''0123456789''" by simp
  moreover have "d < length ''0123456789''" "e < length ''0123456789''"
    using assms by simp_all
  ultimately show ?thesis
    using assms(3) unfolding digit_char_def by (simp only: nth_eq_iff_index_eq)
qed

lemma string_of_nat_nonempty: "string_of_nat n \<noteq> []"
  by (subst string_of_nat.simps) simp

lemma string_of_nat_inj: "string_of_nat m = string_of_nat n \<Longrightarrow> m = n"
proof (induction m arbitrary: n rule: string_of_nat.induct)
  case (1 m)
  show ?case
  proof (cases "m < 10")
    case small_m: True
    show ?thesis
    proof (cases "n < 10")
      case True
      with small_m "1.prems" have "digit_char m = digit_char n"
        by (simp add: string_of_nat.simps)
      with small_m True show ?thesis by (rule digit_char_inj)
    next
      case False
      with small_m "1.prems"
      have "[digit_char m] = string_of_nat (n div 10) @ [digit_char (n mod 10)]"
        by (simp add: string_of_nat.simps [of m] string_of_nat.simps [of n])
      then have "string_of_nat (n div 10) = []" by simp
      with string_of_nat_nonempty show ?thesis by blast
    qed
  next
    case big_m: False
    show ?thesis
    proof (cases "n < 10")
      case True
      with big_m "1.prems"
      have "string_of_nat (m div 10) @ [digit_char (m mod 10)] = [digit_char n]"
        by (simp add: string_of_nat.simps [of m] string_of_nat.simps [of n])
      then have "string_of_nat (m div 10) = []" by simp
      with string_of_nat_nonempty show ?thesis by blast
    next
      case False
      with big_m "1.prems" have
        "string_of_nat (m div 10) @ [digit_char (m mod 10)] =
         string_of_nat (n div 10) @ [digit_char (n mod 10)]"
        by (simp add: string_of_nat.simps [of m] string_of_nat.simps [of n])
      then have pre: "string_of_nat (m div 10) = string_of_nat (n div 10)"
        and dig: "digit_char (m mod 10) = digit_char (n mod 10)"
        by simp_all
      from "1.IH" [OF big_m pre] have q: "m div 10 = n div 10" .
      have "m mod 10 = n mod 10"
        by (rule digit_char_inj [OF _ _ dig]) simp_all
      with q show ?thesis
        by (metis div_mult_mod_eq)
    qed
  qed
qed

text \<open>No two entries of a pair file share a key.\<close>

lemma key_simps [simp]:
  "T1_key i = T1_key j \<longleftrightarrow> i = j"
  "T2_key i = T2_key j \<longleftrightarrow> i = j"
  "T1_key i \<noteq> T2_key j"
  "T2_key i \<noteq> T1_key j"
  "T1_key i \<noteq> ''frameCount''"
  "T2_key i \<noteq> ''frameCount''"
  "''frameCount'' \<noteq> T1_key i"
  "''frameCount'' \<noteq> T2_key i"
  by (auto simp: T1_key_def T2_key_def dest: string_of_nat_inj)

section \<open>Writing and reading the pose-pair file\<close>

lemma write_pairs_loop_entries:
  "length t1 \<le> length t2 \<Longrightarrow> write_pairs_loop i t1 t2 fs = Inr (fs @ pair_entries i t1 t2)"
proof (induction t1 arbitrary: i t2 fs)
  case Nil
  then show ?case by simp
next
  case (Cons a t1)
  then obtain b t2' where "t2 = b # t2'" by (cases t2) auto
  with Cons show ?case by simp
qed

lemma map_of_pair_entries:
  assumes "j < length t1" "length t1 \<le> length t2"
  shows "map_of (pair_entries i t1 t2) (T1_key (i + j)) = Some (MatVal (eigen2cv (t1 ! j)))"
    and "map_of (pair_entries i t1 t2) (T2_key (i + j)) = Some (MatVal (eigen2cv (t2 ! j)))"
  using assms
proof (induction i t1 t2 arbitrary: j rule: pair_entries.induct)
  case (1 i t2)
  { case 1 then show ?case by simp }
  { case 2 then show ?case by simp }
next
  case (2 i a t1)
  { case 1 then show ?case by simp }
  { case 2 then show ?case by simp }
next
  case (3 i a t1 b t2)
  { case 1
    show ?case
    proof (cases j)
      case 0
      then show ?thesis by simp
    next
      case (Suc j')
      with "3.IH"(1) [of j'] "1" show ?thesis by simp
    qed }
  { case 2
    show ?case
    proof (cases j)
      case 0
      then show ?thesis by simp
    next
      case (Suc j')
      with "3.IH"(2) [of j'] "2" show ?thesis by simp
    qed }
qed

lemma map_of_pair_entries_0:
  assumes "j < length t1" "length t1 \<le> length t2"
  shows "map_of (pair_entries 0 t1 t2) (T1_key j) = Some (MatVal (eigen2cv (t1 ! j)))"
    and "map_of (pair_entries 0 t1 t2) (T2_key j) = Some (MatVal (eigen2cv (t2 ! j)))"
  using map_of_pair_entries [OF assms, of 0] by simp_all

lemma cv2eigen_eigen2cv:
  "cv2eigen (map (map P) (eigen2cv m)) = Inr (map_coeffs P m)"
  by (cases m; cases "row0 m"; cases "row1 m"; cases "row2 m"; cases "row3 m")
     (simp add: eigen2cv_def map_coeffs_def)

lemma coeffs_within_map_coeffs:
  assumes "\<forall>x. \<bar>P x - x\<bar> \<le> eps"
  shows "coeffs_within eps (map_coeffs P m) m"
  using assms
  by (cases m; cases "row0 m"; cases "row1 m"; cases "row2 m"; cases "row3 m")
     (simp add: map_coeffs_def coeffs_within_def)

lemma read_pairs_loop_append:
  assumes "\<forall>j<n. read_mat P fs (T1_key (i + j)) = Inr (a (i + j))
               \<and> read_mat P fs (T2_key (i + j)) = Inr (b (i + j))"
  shows "read_pairs_loop P fs i n t1 t2 = Inr (t1 @ map a [i..<i + n], t2 @ map b [i..<i + n])"
  using assms
proof (induction n arbitrary: i t1 t2)
  case 0
  then show ?case by simp
next
  case (Suc n)
  from Suc.prems have here:
    "read_mat P fs (T1_key i) = Inr (a i)" "read_mat P fs (T2_key i) = Inr (b i)"
    by force+
  have "\<forall>j<n. read_mat P fs (T1_key (Suc i + j)) = Inr (a (Suc i + j))
               \<and> read_mat P fs (T2_key (Suc i + j)) = Inr (b (Suc i + j))"
  proof (intro allI impI)
    fix j assume "j < n"
    then have "Suc j < Suc n" by simp
    with Suc.prems have "read_mat P fs (T1_key (i + Suc j)) = Inr (a (i + Suc j))
               \<and> read_mat P fs (T2_key (i + Suc j)) = Inr (b (i + Suc j))" by blast
    then show "read_mat P fs (T1_key (Suc i + j)) = Inr (a (Suc i + j))
               \<and> read_mat P fs (T2_key (Suc i + j)) = Inr (b (Suc i + j))" by simp
  qed
  from Suc.IH [OF this] have
    "read_pairs_loop P fs (Suc i) n (t1 @ [a i]) (t2 @ [b i]) =
       Inr ((t1 @ [a i]) @ map a [Suc i..<Suc i + n], (t2 @ [b i]) @ map b [Suc i..<Suc i + n])" .
  moreover have "[i..<i + Suc n] = i # [Suc i..<Suc i + n]"
    by (simp add: upt_conv_Cons)
  ultimately show ?case
    by (simp add: here)
qed

lemma read_pairs_loop_append_0:
  assumes "\<forall>j<n. read_mat P fs (T1_key j) = Inr (a j) \<and> read_mat P fs (T2_key j) = Inr (b j)"
  shows "read_pairs_loop P fs 0 n t1 t2 = Inr (t1 @ map a [0..<n], t2 @ map b [0..<n])"
  using read_pairs_loop_append [of n P fs 0 a b t1 t2] assms by simp

text \<open>Claim C10. \<^verbatim>\<open>readTransformPairsFromFile\<close> appends. When the file cannot be opened it
  returns 1 and the two vectors as they were. When the file opens, holds the count
  \<open>frameCount\<close> and a 4x4 matrix under each key \<^verbatim>\<open>T1_j\<close> and \<^verbatim>\<open>T2_j\<close> below it, it returns 0,
  and each vector is what it was before (empty or not), followed by the \<open>frameCount\<close>
  matrices read, in the order of their indices.\<close>

theorem readTransformPairsFromFile_appends:
  "readTransformPairsFromFile P None t1 t2 = Inr (1, t1, t2)
   \<and> (read_int fs ''frameCount'' = Inr frameCount
        \<and> (\<forall>j<nat frameCount. read_mat P fs (T1_key j) = Inr (a j)
                               \<and> read_mat P fs (T2_key j) = Inr (b j))
       \<longrightarrow> readTransformPairsFromFile P (Some fs) t1 t2 =
             Inr (0, t1 @ map a [0..<nat frameCount], t2 @ map b [0..<nat frameCount]))"
proof (intro conjI impI)
  show "readTransformPairsFromFile P None t1 t2 = Inr (1, t1, t2)"
    by (simp add: readTransformPairsFromFile_def)
next
  assume wf: "read_int fs ''frameCount'' = Inr frameCount
        \<and> (\<forall>j<nat frameCount. read_mat P fs (T1_key j) = Inr (a j)
                               \<and> read_mat P fs (T2_key j) = Inr (b j))"
  then have "read_pairs_loop P fs 0 (nat frameCount) t1 t2 =
               Inr (t1 @ map a [0..<nat frameCount], t2 @ map b [0..<nat frameCount])"
    by (intro read_pairs_loop_append_0) blast
  with wf show "readTransformPairsFromFile P (Some fs) t1 t2 =
             Inr (0, t1 @ map a [0..<nat frameCount], t2 @ map b [0..<nat frameCount])"
    by (simp add: readTransformPairsFromFile_def)
qed

theorem readTransformPairsFromFile_appends_witness:
  "readTransformPairsFromFile (\<lambda>y. y) None [shift 0 0 0] [shift 9 9 9] =
     Inr (1, [shift 0 0 0], [shift 9 9 9])
   \<and> read_int example_file ''frameCount'' = Inr 1
   \<and> read_mat (\<lambda>y. y) example_file (T1_key 0) = Inr (shift 1 2 3)
   \<and> read_mat (\<lambda>y. y) example_file (T2_key 0) = Inr (shift 4 5 6)
   \<and> readTransformPairsFromFile (\<lambda>y. y) (Some example_file) [shift 0 0 0] [shift 9 9 9] =
       Inr (0, [shift 0 0 0, shift 1 2 3], [shift 9 9 9, shift 4 5 6])"
  using readTransformPairsFromFile_appends
          [of "\<lambda>y. y" "[shift 0 0 0]" "[shift 9 9 9]" example_file 1
              "\<lambda>j. shift 1 2 3" "\<lambda>j. shift 4 5 6"]
  by (simp add: example_file_reads)

lemma map_nth_fun: "map (\<lambda>j. f (xs ! j)) [0..<length xs] = map f xs"
proof -
  have "map (\<lambda>j. f (xs ! j)) [0..<length xs] = map f (map ((!) xs) [0..<length xs])"
    by (simp add: o_def)
  then show ?thesis by (simp only: map_nth)
qed

text \<open>What is read back from a file just written: every transform of the pairs, with the
  storage precision \<open>P\<close> applied to its coefficients, after what the vectors held.\<close>

lemma write_then_read:
  "\<exists>fs. writeTransformPairsToFile (map fst pairs) (map snd pairs) True = Inr (0, Some fs)
       \<and> readTransformPairsFromFile P (Some fs) t1 t2 =
           Inr (0, t1 @ map (map_coeffs P) (map fst pairs),
                   t2 @ map (map_coeffs P) (map snd pairs))"
proof -
  let ?t1 = "map fst pairs" and ?t2 = "map snd pairs"
  let ?fs = "(''frameCount'', IntVal (int (length pairs))) # pair_entries 0 ?t1 ?t2"
  have w: "writeTransformPairsToFile ?t1 ?t2 True = Inr (0, Some ?fs)"
    by (simp add: writeTransformPairsToFile_def write_pairs_loop_entries)
  have fc: "read_int ?fs ''frameCount'' = Inr (int (length pairs))"
    by (simp add: read_int_def)
  have mats: "\<forall>j<length pairs.
                read_mat P ?fs (T1_key j) = Inr (map_coeffs P (?t1 ! j))
              \<and> read_mat P ?fs (T2_key j) = Inr (map_coeffs P (?t2 ! j))"
  proof (intro allI impI)
    fix j assume j: "j < length pairs"
    have "map_of (pair_entries 0 ?t1 ?t2) (T1_key j) = Some (MatVal (eigen2cv (?t1 ! j)))"
      by (rule map_of_pair_entries_0) (simp_all add: j)
    moreover
    have "map_of (pair_entries 0 ?t1 ?t2) (T2_key j) = Some (MatVal (eigen2cv (?t2 ! j)))"
      by (rule map_of_pair_entries_0) (simp_all add: j)
    ultimately show "read_mat P ?fs (T1_key j) = Inr (map_coeffs P (?t1 ! j))
              \<and> read_mat P ?fs (T2_key j) = Inr (map_coeffs P (?t2 ! j))"
      by (simp add: read_mat_def cv2eigen_eigen2cv)
  qed
  have "read_pairs_loop P ?fs 0 (length pairs) t1 t2 =
          Inr (t1 @ map (\<lambda>j. map_coeffs P (?t1 ! j)) [0..<length pairs],
               t2 @ map (\<lambda>j. map_coeffs P (?t2 ! j)) [0..<length pairs])"
    by (rule read_pairs_loop_append_0) (rule mats)
  moreover have "map (\<lambda>j. map_coeffs P (?t1 ! j)) [0..<length pairs] = map (map_coeffs P) ?t1"
    using map_nth_fun [of "map_coeffs P" ?t1] by simp
  moreover have "map (\<lambda>j. map_coeffs P (?t2 ! j)) [0..<length pairs] = map (map_coeffs P) ?t2"
    using map_nth_fun [of "map_coeffs P" ?t2] by simp
  ultimately have "read_pairs_loop P ?fs 0 (length pairs) t1 t2 =
          Inr (t1 @ map (map_coeffs P) ?t1, t2 @ map (map_coeffs P) ?t2)"
    by (simp only:)
  with fc have "readTransformPairsFromFile P (Some ?fs) t1 t2 =
               Inr (0, t1 @ map (map_coeffs P) ?t1, t2 @ map (map_coeffs P) ?t2)"
    by (simp add: readTransformPairsFromFile_def)
  with w show ?thesis by blast
qed

text \<open>Claim C6. A list of pose pairs written with \<^verbatim>\<open>writeTransformPairsToFile\<close> (to a file that
  opens) and read back with \<^verbatim>\<open>readTransformPairsFromFile\<close> into empty vectors comes back
  pair for pair: the vectors read are the transforms written, in their order, each
  coefficient passed once through the storage precision \<open>P\<close> and otherwise unchanged. So
  there are as many pairs as were written, and when the storage library reads every double
  back within \<open>10\<^sup>-\<^sup>9\<close> of the one it wrote, every coefficient of every matrix read is within
  \<open>10\<^sup>-\<^sup>9\<close> of the one written.\<close>

theorem pair_file_round_trip:
  "\<exists>fs. writeTransformPairsToFile (map fst pairs) (map snd pairs) True = Inr (0, Some fs)
       \<and> readTransformPairsFromFile P (Some fs) [] [] =
           Inr (0, map (map_coeffs P) (map fst pairs), map (map_coeffs P) (map snd pairs))
       \<and> ((\<forall>x. \<bar>P x - x\<bar> \<le> 1 / 10 ^ 9) \<longrightarrow>
            (\<exists>t1' t2'. readTransformPairsFromFile P (Some fs) [] [] = Inr (0, t1', t2')
               \<and> length t1' = length pairs
               \<and> length t2' = length pairs
               \<and> (\<forall>i<length pairs.
                     coeffs_within (1 / 10 ^ 9) (t1' ! i) (fst (pairs ! i))
                   \<and> coeffs_within (1 / 10 ^ 9) (t2' ! i) (snd (pairs ! i)))))"
proof -
  from write_then_read [of pairs P "[]" "[]"] obtain fs where
    w: "writeTransformPairsToFile (map fst pairs) (map snd pairs) True = Inr (0, Some fs)" and
    r: "readTransformPairsFromFile P (Some fs) [] [] =
          Inr (0, map (map_coeffs P) (map fst pairs), map (map_coeffs P) (map snd pairs))"
    by auto
  have "\<exists>t1' t2'. readTransformPairsFromFile P (Some fs) [] [] = Inr (0, t1', t2')
               \<and> length t1' = length pairs
               \<and> length t2' = length pairs
               \<and> (\<forall>i<length pairs.
                     coeffs_within (1 / 10 ^ 9) (t1' ! i) (fst (pairs ! i))
                   \<and> coeffs_within (1 / 10 ^ 9) (t2' ! i) (snd (pairs ! i)))"
    if near: "\<forall>x. \<bar>P x - x\<bar> \<le> 1 / 10 ^ 9"
  proof (intro exI conjI)
    show "readTransformPairsFromFile P (Some fs) [] [] =
          Inr (0, map (map_coeffs P) (map fst pairs), map (map_coeffs P) (map snd pairs))"
      by (rule r)
    show "length (map (map_coeffs P) (map fst pairs)) = length pairs" by simp
    show "length (map (map_coeffs P) (map snd pairs)) = length pairs" by simp
    show "\<forall>i<length pairs.
            coeffs_within (1 / 10 ^ 9) (map (map_coeffs P) (map fst pairs) ! i) (fst (pairs ! i))
          \<and> coeffs_within (1 / 10 ^ 9) (map (map_coeffs P) (map snd pairs) ! i) (snd (pairs ! i))"
      using coeffs_within_map_coeffs [OF near] by simp
  qed
  with w r show ?thesis by blast
qed

theorem pair_file_round_trip_witness:
  "(\<forall>x::real. \<bar>(x + 1 / 10 ^ 10) - x\<bar> \<le> 1 / 10 ^ 9)
   \<and> (\<exists>fs t1' t2'.
        writeTransformPairsToFile [shift 1 2 3, quarter_turn 0 0 1] [shift 4 5 6, shift 0 1 0] True
          = Inr (0, Some fs)
      \<and> readTransformPairsFromFile (\<lambda>x. x + 1 / 10 ^ 10) (Some fs) [] [] = Inr (0, t1', t2')
      \<and> t1' = [map_coeffs (\<lambda>x. x + 1 / 10 ^ 10) (shift 1 2 3),
                map_coeffs (\<lambda>x. x + 1 / 10 ^ 10) (quarter_turn 0 0 1)]
      \<and> t2' = [map_coeffs (\<lambda>x. x + 1 / 10 ^ 10) (shift 4 5 6),
                map_coeffs (\<lambda>x. x + 1 / 10 ^ 10) (shift 0 1 0)]
      \<and> coeffs_within (1 / 10 ^ 9) (t1' ! 0) (shift 1 2 3)
      \<and> coeffs_within (1 / 10 ^ 9) (t1' ! 1) (quarter_turn 0 0 1)
      \<and> coeffs_within (1 / 10 ^ 9) (t2' ! 0) (shift 4 5 6)
      \<and> coeffs_within (1 / 10 ^ 9) (t2' ! 1) (shift 0 1 0))"
proof -
  let ?P = "\<lambda>x::real. x + 1 / 10 ^ 10"
  let ?ps = "[(shift 1 2 3, shift 4 5 6), (quarter_turn 0 0 1, shift 0 1 0)]"
  have h: "\<forall>x::real. \<bar>?P x - x\<bar> \<le> 1 / 10 ^ 9" by simp
  from pair_file_round_trip [of ?ps ?P] h obtain fs t1' t2' where
    w: "writeTransformPairsToFile (map fst ?ps) (map snd ?ps) True = Inr (0, Some fs)" and
    r: "readTransformPairsFromFile ?P (Some fs) [] [] =
          Inr (0, map (map_coeffs ?P) (map fst ?ps), map (map_coeffs ?P) (map snd ?ps))" and
    r': "readTransformPairsFromFile ?P (Some fs) [] [] = Inr (0, t1', t2')" and
    near: "\<forall>i<length ?ps.
             coeffs_within (1 / 10 ^ 9) (t1' ! i) (fst (?ps ! i))
           \<and> coeffs_within (1 / 10 ^ 9) (t2' ! i) (snd (?ps ! i))"
    by blast
  from near have "coeffs_within (1 / 10 ^ 9) (t1' ! 0) (fst (?ps ! 0))
                \<and> coeffs_within (1 / 10 ^ 9) (t2' ! 0) (snd (?ps ! 0))"
    by (rule allE [of _ 0]) simp
  moreover from near have "coeffs_within (1 / 10 ^ 9) (t1' ! 1) (fst (?ps ! 1))
                \<and> coeffs_within (1 / 10 ^ 9) (t2' ! 1) (snd (?ps ! 1))"
    by (rule allE [of _ 1]) simp
  moreover from r r' have "t1' = map (map_coeffs ?P) (map fst ?ps)"
    "t2' = map (map_coeffs ?P) (map snd ?ps)" by simp_all
  ultimately show ?thesis
    using h w r' by (intro conjI exI [of _ fs] exI [of _ t1'] exI [of _ t2']) simp_all
qed

section \<open>What the calibration-result file holds\<close>

text \<open>Claim C7. Into a file that opens, \<^verbatim>\<open>writeCalibration\<close> writes nine entries, under the
  keys of the result schema and in its order: \<^verbatim>\<open>handToEyeTF\<close> is the row
  \<open>[tx, ty, tz, qx, qy, qz, qw]\<close> of the translation and the rotation quaternion of the
  estimate, \<^verbatim>\<open>handToEyeTransform\<close> its 4x4 matrix, \<^verbatim>\<open>change_cost\<close> the initial cost minus the
  final cost, and \<^verbatim>\<open>num_iteration\<close> the sum of the successful and the unsuccessful steps.\<close>

theorem writeCalibration_fields:
  "\<exists>fs. writeCalibration E resultAffine True summary = Some fs
     \<and> map fst fs =
         [''handToEyeTF'', ''handToEyeTransform'', ''initial_cost'', ''final_cost'',
          ''change_cost'', ''termination_type'', ''num_successful_iteration'',
          ''num_unsuccessful_iteration'', ''num_iteration'']
     \<and> map_of fs ''handToEyeTF'' =
         Some (MatVal [[vec_x (translation E resultAffine), vec_y (translation E resultAffine),
                        vec_z (translation E resultAffine),
                        quat_x (to_Quaterniond E (rotation E resultAffine)),
                        quat_y (to_Quaterniond E (rotation E resultAffine)),
                        quat_z (to_Quaterniond E (rotation E resultAffine)),
                        quat_w (to_Quaterniond E (rotation E resultAffine))]])
     \<and> map_of fs ''handToEyeTransform'' = Some (MatVal (eigen2cv resultAffine))
     \<and> length (eigen2cv resultAffine) = 4
     \<and> list_all (\<lambda>r. length r = 4) (eigen2cv resultAffine)
     \<and> cv2eigen (eigen2cv resultAffine) = Inr resultAffine
     \<and> map_of fs ''initial_cost'' = Some (RealVal (initial_cost summary))
     \<and> map_of fs ''final_cost'' = Some (RealVal (final_cost summary))
     \<and> map_of fs ''change_cost'' = Some (RealVal (initial_cost summary - final_cost summary))
     \<and> map_of fs ''termination_type'' = Some (IntVal (termination_type summary))
     \<and> map_of fs ''num_successful_iteration'' = Some (IntVal (num_successful_steps summary))
     \<and> map_of fs ''num_unsuccessful_iteration'' = Some (IntVal (num_unsuccessful_steps summary))
     \<and> map_of fs ''num_iteration'' =
         Some (IntVal (num_successful_steps summary + num_unsuccessful_steps summary))"
  by (cases resultAffine; cases "row0 resultAffine"; cases "row1 resultAffine";
      cases "row2 resultAffine"; cases "row3 resultAffine")
     (simp add: writeCalibration_def Let_def eigen2cv_def)

section \<open>Undo\<close>

text \<open>The branch of key \<^verbatim>\<open>d\<close> is defined exactly when none of the six vectors is empty; it
  then drops the last element of each and writes nothing else but its console message.\<close>

lemma main_key_d_empty:
  "rvecsArm g = [] \<Longrightarrow>
     main_key_d g = Inl (UndefinedBehaviour ''rvecsArm.pop_back() on an empty vector'')"
  by (simp add: main_key_d_def pop_back_def ROS_INFO_def)



text \<open>Claim C3. Undo on the empty store is not a no-op in the source. With no pair captured
  all six vectors are empty, and the branch of key \<^verbatim>\<open>d\<close> calls \<^verbatim>\<open>pop_back\<close> on them without a
  check: the first call, on \<^verbatim>\<open>rvecsArm\<close>, is undefined behaviour, for the branch alone and for
  the loop of \<^verbatim>\<open>main\<close> when \<^verbatim>\<open>d\<close> is the first key.\<close>

theorem undo_on_empty_store_undefined:
  "main_key_d (initial_globals cameraTF ARTagTF EETF baseTF iEE iCam) =
     Inl (UndefinedBehaviour ''rvecsArm.pop_back() on an empty vector'')
   \<and> main_loop E calib [(of_char CHR ''d'', camLookup, eeLookup, fsOpened)]
       (initial_globals cameraTF ARTagTF EETF baseTF iEE iCam) =
     Inl (UndefinedBehaviour ''rvecsArm.pop_back() on an empty vector'')"
  by (simp add: main_key_d_empty initial_globals_def)

section \<open>The sizes of the buffers along the interactive loop\<close>
















section \<open>Undo and the calibration reference\<close>








end
